theory Spec2Isabelle
  imports Main "HOL-Library.Word"
begin

unbundle bit_operations_syntax

section \<open>JavaScript values used by the chat front end\<close>

text \<open>
  The program is the React component \<^verbatim>\<open>App\<close> of \<^verbatim>\<open>frontend/src/App.jsx\<close>.
  A JavaScript string is a sequence of 16-bit code units; a source literal is written
  \<open>js ''...''\<close>.
\<close>

type_synonym jsstring = "16 word list"

definition js :: "string \<Rightarrow> jsstring" where
  "js s = map (\<lambda>c. of_nat (of_char c)) s"

text \<open>
  \<^verbatim>\<open>String.prototype.trim\<close> removes the code points that ECMAScript calls WhiteSpace
  or LineTerminator from both ends. All of them lie in the basic plane, so the test is
  on single code units.
\<close>

definition isWhiteSpace :: "16 word \<Rightarrow> bool" where
  "isWhiteSpace c \<longleftrightarrow>
     c \<in> set [0x0009, 0x000A, 0x000B, 0x000C, 0x000D, 0x0020, 0x00A0, 0x1680,
              0x2000, 0x2001, 0x2002, 0x2003, 0x2004, 0x2005, 0x2006, 0x2007,
              0x2008, 0x2009, 0x200A, 0x2028, 0x2029, 0x202F, 0x205F, 0x3000,
              0xFEFF]"

definition trim :: "jsstring \<Rightarrow> jsstring" where
  "trim s = rev (dropWhile isWhiteSpace (rev (dropWhile isWhiteSpace s)))"

text \<open>
  The result of \<^verbatim>\<open>JSON.parse\<close>. A number is kept as its IEEE-754 binary64 bit
  pattern; an object keeps its members in the order of the text.
\<close>

datatype json =
    JNull
  | JBool bool
  | JNum "64 word"
  | JStr jsstring
  | JArr "json list"
  | JObj "(jsstring \<times> json) list"

text \<open>
  The exceptions that occur: the two kinds the language throws here, and the error React
  throws when a plain object is given as a child (\<^verbatim>\<open>Objects are not valid as a React
  child\<close>).
\<close>

datatype js_error = TypeError | SyntaxError | InvalidChild

definition is_zero :: "64 word \<Rightarrow> bool" where
  "is_zero w \<longleftrightarrow> w AND 0x7FFFFFFFFFFFFFFF = 0"

definition is_nan :: "64 word \<Rightarrow> bool" where
  "is_nan w \<longleftrightarrow> w AND 0x7FF0000000000000 = 0x7FF0000000000000 \<and> w AND 0x000FFFFFFFFFFFFF \<noteq> 0"

text \<open>\<^verbatim>\<open>ToBoolean\<close>: what \<^verbatim>\<open>||\<close> and \<^verbatim>\<open>!\<close> test.\<close>

fun truthy :: "json \<Rightarrow> bool" where
  "truthy JNull = False"
| "truthy (JBool b) = b"
| "truthy (JNum w) = (\<not> is_zero w \<and> \<not> is_nan w)"
| "truthy (JStr s) = (s \<noteq> [])"
| "truthy (JArr xs) = True"
| "truthy (JObj kvs) = True"

text \<open>
  Reading a property \<^verbatim>\<open>data.k\<close> of a parsed value, for a name \<open>k\<close> that no standard
  prototype defines and that is neither \<^verbatim>\<open>length\<close> nor an index (the program reads
  \<^verbatim>\<open>reply\<close> and \<^verbatim>\<open>history\<close> from a body, and \<^verbatim>\<open>sender\<close>, \<^verbatim>\<open>text\<close> and
  \<^verbatim>\<open>timestamp\<close> from an entry of the history). \<open>None\<close> is \<^verbatim>\<open>undefined\<close>. Reading
  from \<^verbatim>\<open>null\<close> throws. Of two members with one name the later wins.
\<close>

fun getProp :: "json \<Rightarrow> jsstring \<Rightarrow> js_error + json option" where
  "getProp JNull k = Inl TypeError"
| "getProp (JObj kvs) k = Inr (map_of (rev kvs) k)"
| "getProp (JBool b) k = Inr None"
| "getProp (JNum w) k = Inr None"
| "getProp (JStr s) k = Inr None"
| "getProp (JArr xs) k = Inr None"

text \<open>\<^verbatim>\<open>v || d\<close> where \<open>v\<close> may be \<^verbatim>\<open>undefined\<close>.\<close>

definition or_else :: "json option \<Rightarrow> json \<Rightarrow> json" where
  "or_else v d = (case v of None \<Rightarrow> d | Some x \<Rightarrow> if truthy x then x else d)"

section \<open>Component state and the network\<close>

text \<open>
  A message of the session list, as the object literals of \<^verbatim>\<open>sendMessage\<close> build it.
  The text of a bot message is whatever \<^verbatim>\<open>data.reply || "(No reply)"\<close> evaluates to,
  so it is a parsed value and not always a string.
\<close>

record message =
  sender :: jsstring
  msg_text :: json
  timestamp :: jsstring

text \<open>
  A call of \<^verbatim>\<open>fetch\<close>. \<open>req_body\<close> is the value handed to \<^verbatim>\<open>JSON.stringify\<close>;
  a call without an init object is a GET with no headers and no body.
\<close>

record request =
  req_url :: jsstring
  req_method :: jsstring
  req_headers :: "(jsstring \<times> jsstring) list"
  req_body :: "json option"

definition BACKEND_URL :: jsstring where
  "BACKEND_URL = js ''http://localhost:5000''"

definition chat_request :: "jsstring \<Rightarrow> request" where
  "chat_request userInput =
     \<lparr>req_url = BACKEND_URL @ js ''/chat'',
      req_method = js ''POST'',
      req_headers = [(js ''Content-Type'', js ''application/json'')],
      req_body = Some (JObj [(js ''message'', JStr userInput)])\<rparr>"

definition history_request :: request where
  "history_request =
     \<lparr>req_url = BACKEND_URL @ js ''/history'',
      req_method = js ''GET'',
      req_headers = [],
      req_body = None\<rparr>"

text \<open>
  How a \<^verbatim>\<open>fetch\<close> settles: it rejects on a network error, and resolves with a response
  for every HTTP status. \<open>ok\<close> is \<^verbatim>\<open>res.ok\<close> (status 200 to 299); \<open>json_body\<close> is the
  parsed body, \<open>None\<close> when the body is not JSON, in which case \<^verbatim>\<open>res.json()\<close> rejects.
\<close>

datatype response = Response (ok: bool) (json_body: "json option")

datatype fetch_result = Rejected | Resolved response

fun res_json :: "response \<Rightarrow> js_error + json" where
  "res_json (Response b None) = Inl SyntaxError"
| "res_json (Response b (Some data)) = Inr data"

text \<open>
  The five \<^verbatim>\<open>useState\<close> cells of \<^verbatim>\<open>App\<close>, then the environment: every request
  issued so far, in order, and how many calls of each kind have not settled yet.
\<close>

record world =
  messages :: "message list"
  input :: jsstring
  showHistory :: bool
  history :: json
  loadingHistory :: bool
  outbox :: "request list"
  chat_pending :: nat
  history_pending :: nat

definition init :: world where
  "init = \<lparr>messages = [], input = [], showHistory = False, history = JArr [],
           loadingHistory = False, outbox = [], chat_pending = 0, history_pending = 0\<rparr>"

section \<open>sendMessage\<close>

text \<open>
  The synchronous part of \<^verbatim>\<open>sendMessage\<close>, up to the first \<^verbatim>\<open>await\<close>. \<open>now\<close> is
  what \<^verbatim>\<open>new Date().toLocaleTimeString(...)\<close> returns at that moment.
  \<^verbatim>\<open>!input.trim()\<close> holds exactly when the trimmed string is empty.
\<close>

definition sendMessage :: "jsstring \<Rightarrow> world \<Rightarrow> world" where
  "sendMessage now w =
     (if trim (input w) = [] then w
      else
        let userMsg = \<lparr>sender = js ''user'', msg_text = JStr (input w), timestamp = now\<rparr>;
            userInput = input w
        in w\<lparr>messages := messages w @ [userMsg],
              input := [],
              outbox := outbox w @ [chat_request userInput],
              chat_pending := Suc (chat_pending w)\<rparr>)"

text \<open>
  The two awaits inside \<^verbatim>\<open>try\<close>: \<^verbatim>\<open>fetch\<close>, then \<^verbatim>\<open>res.json()\<close>. No state is
  read or written between them.
\<close>

fun chat_await :: "fetch_result \<Rightarrow> js_error + json" where
  "chat_await Rejected = Inl TypeError"
| "chat_await (Resolved res) = res_json res"

text \<open>
  The updater \<^verbatim>\<open>(msgs) => [...msgs, {sender: "bot", text: data.reply || "(No reply)", ...}]\<close>.
  It is a closure: \<^verbatim>\<open>data.reply\<close> and the timestamp are evaluated when React runs it.
\<close>

definition bot_updater :: "json \<Rightarrow> jsstring \<Rightarrow> message list \<Rightarrow> js_error + message list" where
  "bot_updater data now msgs =
     (case getProp data (js ''reply'') of
        Inl e \<Rightarrow> Inl e
      | Inr v \<Rightarrow>
          Inr (msgs @ [\<lparr>sender = js ''bot'',
                        msg_text = or_else v (JStr (js ''(No reply)'')),
                        timestamp = now\<rparr>]))"

definition error_updater :: "jsstring \<Rightarrow> message list \<Rightarrow> message list" where
  "error_updater now msgs =
     msgs @ [\<lparr>sender = js ''bot'',
              msg_text = JStr (js ''Error: Could not reach backend.''),
              timestamp = now\<rparr>]"

text \<open>
  The rest of \<^verbatim>\<open>sendMessage\<close>, run when the call settles. A rejection of either await
  goes to the \<^verbatim>\<open>catch\<close> block. An exception of the updater does not:
  \<^verbatim>\<open>setMessages\<close> only queues the updater (an exception of React's eager call of it
  is discarded there), and the call that counts is made while \<^verbatim>\<open>App\<close> is rendered,
  after the \<^verbatim>\<open>try\<close> block has been left. So \<open>Inl\<close> here is an exception that nothing
  handles.
\<close>

definition sendMessage_resume :: "fetch_result \<Rightarrow> jsstring \<Rightarrow> world \<Rightarrow> js_error + world" where
  "sendMessage_resume r now w =
     (case chat_await r of
        Inl e \<Rightarrow> Inr (w\<lparr>messages := error_updater now (messages w)\<rparr>)
      | Inr data \<Rightarrow>
          (case bot_updater data now (messages w) of
             Inl e \<Rightarrow> Inl e
           | Inr msgs \<Rightarrow> Inr (w\<lparr>messages := msgs\<rparr>)))"

section \<open>The history panel\<close>

text \<open>
  The effect with dependency \<^verbatim>\<open>[showHistory]\<close>: React runs it after the first render,
  where \<^verbatim>\<open>showHistory\<close> is false and the effect does nothing, and after every render
  in which \<^verbatim>\<open>showHistory\<close> changed.
\<close>

definition history_effect :: "world \<Rightarrow> world" where
  "history_effect w =
     (if showHistory w
      then w\<lparr>loadingHistory := True,
              outbox := outbox w @ [history_request],
              history_pending := Suc (history_pending w)\<rparr>
      else w)"

text \<open>
  \<^verbatim>\<open>setShowHistory(b)\<close> from a click. Setting the value the cell already holds
  renders nothing and runs no effect.
\<close>

definition setShowHistory :: "bool \<Rightarrow> world \<Rightarrow> world" where
  "setShowHistory b w =
     (if showHistory w = b then w else history_effect (w\<lparr>showHistory := b\<rparr>))"

text \<open>The callbacks of the promise chain, in the order of the source.\<close>

fun history_json :: "fetch_result \<Rightarrow> js_error + json" where
  "history_json Rejected = Inl TypeError"
| "history_json (Resolved res) = res_json res"

definition history_then :: "json \<Rightarrow> world \<Rightarrow> js_error + world" where
  "history_then data w =
     (case getProp data (js ''history'') of
        Inl e \<Rightarrow> Inl e
      | Inr v \<Rightarrow> Inr (w\<lparr>history := or_else v (JArr []), loadingHistory := False\<rparr>))"

definition history_catch :: "world \<Rightarrow> js_error + world" where
  "history_catch w = Inr (w\<lparr>loadingHistory := False\<rparr>)"

definition history_settle :: "fetch_result \<Rightarrow> world \<Rightarrow> js_error + world" where
  "history_settle r w =
     (case (case history_json r of Inl e \<Rightarrow> Inl e | Inr data \<Rightarrow> history_then data w) of
        Inl e \<Rightarrow> history_catch w
      | Inr w' \<Rightarrow> Inr w')"

section \<open>Rendering\<close>

text \<open>
  What React draws for a value placed in braces in the JSX: nothing for \<^verbatim>\<open>null\<close>,
  \<^verbatim>\<open>undefined\<close> and booleans, the text of a string or a number, the children of an
  array one after the other. A plain object is refused with an exception.
\<close>

datatype child = Nothing | Text jsstring | Number "64 word" | Fragment "child list"

fun react_child :: "json \<Rightarrow> js_error + child"
  and react_children :: "json list \<Rightarrow> js_error + child list" where
  "react_child JNull = Inr Nothing"
| "react_child (JBool b) = Inr Nothing"
| "react_child (JNum n) = Inr (Number n)"
| "react_child (JStr s) = Inr (Text s)"
| "react_child (JArr xs) =
     (case react_children xs of Inl e \<Rightarrow> Inl e | Inr cs \<Rightarrow> Inr (Fragment cs))"
| "react_child (JObj kvs) = Inl InvalidChild"
| "react_children [] = Inr []"
| "react_children (x # xs) =
     (case react_child x of
        Inl e \<Rightarrow> Inl e
      | Inr c \<Rightarrow> (case react_children xs of Inl e \<Rightarrow> Inl e | Inr cs \<Rightarrow> Inr (c # cs)))"

fun optional_child :: "json option \<Rightarrow> js_error + child" where
  "optional_child None = Inr Nothing"
| "optional_child (Some v) = react_child v"

text \<open>
  One message of the session list (the callback of \<^verbatim>\<open>messages.map\<close>): on which side
  it stands, whether the bot's picture is drawn, its text and its timestamp.
\<close>

record bubble =
  from_user :: bool
  bot_picture :: bool
  bubble_text :: child
  bubble_time :: jsstring

definition message_view :: "message \<Rightarrow> js_error + bubble" where
  "message_view m =
     (case react_child (msg_text m) of
        Inl e \<Rightarrow> Inl e
      | Inr c \<Rightarrow>
          Inr \<lparr>from_user = (sender m = js ''user''),
               bot_picture = (sender m = js ''bot''),
               bubble_text = c,
               bubble_time = timestamp m\<rparr>)"

fun message_views :: "message list \<Rightarrow> js_error + bubble list" where
  "message_views [] = Inr []"
| "message_views (m # ms) =
     (case message_view m of
        Inl e \<Rightarrow> Inl e
      | Inr b \<Rightarrow> (case message_views ms of Inl e \<Rightarrow> Inl e | Inr bs \<Rightarrow> Inr (b # bs)))"

text \<open>
  One entry of the history panel. The callback of \<^verbatim>\<open>history.map\<close> reads
  \<^verbatim>\<open>msg.sender\<close>, \<^verbatim>\<open>msg.text\<close> and \<^verbatim>\<open>msg.timestamp\<close> while \<^verbatim>\<open>App\<close> runs, which
  throws on an entry that is \<^verbatim>\<open>null\<close>; React looks at the two children only afterwards.
\<close>

record entry_element =
  el_user :: bool
  el_text :: "json option"
  el_time :: "json option"

definition entry_element :: "json \<Rightarrow> js_error + entry_element" where
  "entry_element msg =
     (case getProp msg (js ''sender'') of
        Inl e \<Rightarrow> Inl e
      | Inr s \<Rightarrow>
          (case getProp msg (js ''text'') of
             Inl e \<Rightarrow> Inl e
           | Inr t \<Rightarrow>
               (case getProp msg (js ''timestamp'') of
                  Inl e \<Rightarrow> Inl e
                | Inr ts \<Rightarrow>
                    Inr \<lparr>el_user = (s = Some (JStr (js ''user''))), el_text = t, el_time = ts\<rparr>)))"

fun entry_elements :: "json list \<Rightarrow> js_error + entry_element list" where
  "entry_elements [] = Inr []"
| "entry_elements (x # xs) =
     (case entry_element x of
        Inl e \<Rightarrow> Inl e
      | Inr el \<Rightarrow> (case entry_elements xs of Inl e \<Rightarrow> Inl e | Inr els \<Rightarrow> Inr (el # els)))"

record entry_view =
  shown_as_user :: bool
  shown_text :: child
  shown_time :: child

definition entry_view :: "entry_element \<Rightarrow> js_error + entry_view" where
  "entry_view el =
     (case optional_child (el_text el) of
        Inl e \<Rightarrow> Inl e
      | Inr t \<Rightarrow>
          (case optional_child (el_time el) of
             Inl e \<Rightarrow> Inl e
           | Inr ts \<Rightarrow> Inr \<lparr>shown_as_user = el_user el, shown_text = t, shown_time = ts\<rparr>))"

fun entry_views :: "entry_element list \<Rightarrow> js_error + entry_view list" where
  "entry_views [] = Inr []"
| "entry_views (el # els) =
     (case entry_view el of
        Inl e \<Rightarrow> Inl e
      | Inr v \<Rightarrow> (case entry_views els of Inl e \<Rightarrow> Inl e | Inr vs \<Rightarrow> Inr (v # vs)))"

text \<open>
  What the body of the panel shows: the three-way conditional of the JSX.
  \<^verbatim>\<open>history.length === 0\<close> reads \<^verbatim>\<open>length\<close> of whatever the cell holds, and
  \<^verbatim>\<open>history.map\<close> is a function only on an array.
\<close>

datatype panel_view = ShowLoading | ShowNoHistory | ShowEntries "entry_view list"

fun length_is_zero :: "json \<Rightarrow> js_error + bool" where
  "length_is_zero JNull = Inl TypeError"
| "length_is_zero (JArr xs) = Inr (xs = [])"
| "length_is_zero (JStr s) = Inr (s = [])"
| "length_is_zero (JObj kvs) =
     Inr (case map_of (rev kvs) (js ''length'') of Some (JNum n) \<Rightarrow> is_zero n | _ \<Rightarrow> False)"
| "length_is_zero (JBool b) = Inr False"
| "length_is_zero (JNum n) = Inr False"

definition history_panel :: "world \<Rightarrow> js_error + panel_view" where
  "history_panel w =
     (if loadingHistory w then Inr ShowLoading
      else case length_is_zero (history w) of
             Inl e \<Rightarrow> Inl e
           | Inr True \<Rightarrow> Inr ShowNoHistory
           | Inr False \<Rightarrow>
               (case history w of
                  JArr xs \<Rightarrow>
                    (case entry_elements xs of
                       Inl e \<Rightarrow> Inl e
                     | Inr els \<Rightarrow>
                         (case entry_views els of
                            Inl e \<Rightarrow> Inl e
                          | Inr vs \<Rightarrow> Inr (ShowEntries vs)))
                | _ \<Rightarrow> Inl TypeError))"

text \<open>
  One render of \<^verbatim>\<open>App\<close>. The panel is part of the page whether it is open or not
  (it is only moved off the screen), so it is drawn every time. The panel stands before
  the session list in the JSX; the session list itself can fail only on a child.
\<close>

record view =
  panel_open :: bool
  panel :: panel_view
  bubbles :: "bubble list"
  input_value :: jsstring

definition render :: "world \<Rightarrow> js_error + view" where
  "render w =
     (case history_panel w of
        Inl e \<Rightarrow> Inl e
      | Inr p \<Rightarrow>
          (case message_views (messages w) of
             Inl e \<Rightarrow> Inl e
           | Inr bs \<Rightarrow>
               Inr \<lparr>panel_open = showHistory w, panel = p, bubbles = bs,
                    input_value = input w\<rparr>))"

section \<open>Events\<close>

text \<open>
  Everything that can happen to the mounted component: typing (\<^verbatim>\<open>onChange\<close>),
  submitting the form, the two buttons of the panel, and the settling of a pending call.
  A call can settle only while one of its kind is pending. After an exception that
  nothing handles the run is over.
\<close>

datatype event =
    Change jsstring
  | Submit jsstring
  | ChatSettled fetch_result jsstring
  | OpenHistory
  | CloseHistory
  | HistorySettled fetch_result

datatype outcome = Done world | Uncaught js_error | NotEnabled

fun outcome_of :: "js_error + world \<Rightarrow> outcome" where
  "outcome_of (Inl e) = Uncaught e"
| "outcome_of (Inr w) = Done w"

fun step :: "event \<Rightarrow> world \<Rightarrow> outcome" where
  "step (Change s) w = Done (w\<lparr>input := s\<rparr>)"
| "step (Submit now) w = Done (sendMessage now w)"
| "step (ChatSettled r now) w =
     (if chat_pending w = 0 then NotEnabled
      else outcome_of (sendMessage_resume r now (w\<lparr>chat_pending := chat_pending w - 1\<rparr>)))"
| "step OpenHistory w = Done (setShowHistory True w)"
| "step CloseHistory w = Done (setShowHistory False w)"
| "step (HistorySettled r) w =
     (if history_pending w = 0 then NotEnabled
      else outcome_of (history_settle r (w\<lparr>history_pending := history_pending w - 1\<rparr>)))"

fun run :: "event list \<Rightarrow> world \<Rightarrow> outcome" where
  "run [] w = Done w"
| "run (e # es) w = (case step e w of Done w' \<Rightarrow> run es w' | out \<Rightarrow> out)"

text \<open>
  \<open>step\<close> is what the handlers do to the state. On the page every change of a state
  cell is followed by a render, and an exception of the render is handled by nothing:
  React takes the whole page down. \<open>app_step\<close> and \<open>app_run\<close> are the steps and runs
  of the page, for a state that is on display. A step that leaves every cell as it was
  shows nothing new: React skips the render or draws the same page once more. The
  render between a click on a button of the panel and the effect differs from the one
  before the click in \<open>panel_open\<close> only, so one render after the effect stands for
  both.
\<close>

definition cells :: "world \<Rightarrow> message list \<times> jsstring \<times> bool \<times> json \<times> bool" where
  "cells w = (messages w, input w, showHistory w, history w, loadingHistory w)"

definition app_step :: "event \<Rightarrow> world \<Rightarrow> outcome" where
  "app_step e w =
     (case step e w of
        Done w' \<Rightarrow>
          (if cells w' = cells w then Done w'
           else case render w' of Inl err \<Rightarrow> Uncaught err | Inr v \<Rightarrow> Done w')
      | out \<Rightarrow> out)"

fun app_run :: "event list \<Rightarrow> world \<Rightarrow> outcome" where
  "app_run [] w = Done w"
| "app_run (e # es) w = (case app_step e w of Done w' \<Rightarrow> app_run es w' | out \<Rightarrow> out)"

text \<open>The number of times the panel goes from closed to open along a run.\<close>

fun open_transitions :: "event list \<Rightarrow> bool \<Rightarrow> nat" where
  "open_transitions [] shown = 0"
| "open_transitions (OpenHistory # es) shown =
     (if shown then 0 else 1) + open_transitions es True"
| "open_transitions (CloseHistory # es) shown = open_transitions es False"
| "open_transitions (e # es) shown = open_transitions es shown"

text \<open>
  The clock reading an event takes: the string that
  \<^verbatim>\<open>new Date().toLocaleTimeString(...)\<close> returns while the event is handled.
\<close>

fun clock_reading :: "event \<Rightarrow> jsstring option" where
  "clock_reading (Submit now) = Some now"
| "clock_reading (ChatSettled r now) = Some now"
| "clock_reading e = None"

fun clock_readings :: "event list \<Rightarrow> jsstring set" where
  "clock_readings [] = {}"
| "clock_readings (e # es) = set_option (clock_reading e) \<union> clock_readings es"

section \<open>Auxiliary facts\<close>

lemmas handler_defs =
  sendMessage_def sendMessage_resume_def bot_updater_def error_updater_def or_else_def
  history_effect_def setShowHistory_def history_then_def history_catch_def history_settle_def

lemmas literal_defs = js_def init_def chat_request_def history_request_def BACKEND_URL_def

lemmas view_defs =
  render_def message_view_def entry_element_def entry_view_def app_step_def cells_def

lemmas eval_defs =
  handler_defs literal_defs trim_def isWhiteSpace_def history_panel_def view_defs

lemma all_dropWhile: "(\<forall>x \<in> set (dropWhile P s). P x) \<longleftrightarrow> (\<forall>x \<in> set s. P x)"
proof
  assume a: "\<forall>x \<in> set (dropWhile P s). P x"
  have "dropWhile P s = []"
  proof (rule ccontr)
    assume n: "dropWhile P s \<noteq> []"
    then have "\<not> P (hd (dropWhile P s))" by (rule hd_dropWhile)
    moreover from n have "hd (dropWhile P s) \<in> set (dropWhile P s)" by simp
    ultimately show False using a by blast
  qed
  then show "\<forall>x \<in> set s. P x" by (simp add: dropWhile_eq_Nil_conv)
next
  assume "\<forall>x \<in> set s. P x"
  then show "\<forall>x \<in> set (dropWhile P s). P x" by (meson set_dropWhileD)
qed

lemma trim_empty_iff: "trim s = [] \<longleftrightarrow> (\<forall>c \<in> set s. isWhiteSpace c)"
  by (simp add: trim_def dropWhile_eq_Nil_conv all_dropWhile)

lemma trim_nonempty_input: "trim s \<noteq> [] \<Longrightarrow> s \<noteq> []"
  by (auto simp: trim_def)

lemma truthy_or_else: "truthy d \<Longrightarrow> truthy (or_else v d)"
  by (simp add: or_else_def split: option.splits)

lemma history_request_is_get:
  "req_method history_request = js ''GET'' \<and> req_url history_request = js ''http://localhost:5000/history''"
  by (simp add: history_request_def BACKEND_URL_def js_def)

lemma chat_request_is_post:
  "req_method (chat_request u) \<noteq> js ''GET''"
  by (simp add: chat_request_def js_def)

lemma history_request_explicit:
  "history_request =
     \<lparr>req_url = js ''http://localhost:5000/history'', req_method = js ''GET'',
      req_headers = [], req_body = None\<rparr>"
  by (simp add: history_request_def BACKEND_URL_def js_def)

lemma chat_request_explicit:
  "chat_request u =
     \<lparr>req_url = js ''http://localhost:5000/chat'', req_method = js ''POST'',
      req_headers = [(js ''Content-Type'', js ''application/json'')],
      req_body = Some (JObj [(js ''message'', JStr u)])\<rparr>"
  by (simp add: chat_request_def BACKEND_URL_def js_def)

lemma chat_settle_cases:
  "sendMessage_resume r now w = Inr w' \<Longrightarrow>
     \<exists>m. w' = w\<lparr>messages := messages w @ [m]\<rparr> \<and> sender m = js ''bot'' \<and> truthy (msg_text m) \<and> timestamp m = now"
  by (auto simp: sendMessage_resume_def bot_updater_def error_updater_def truthy_or_else js_def
           split: sum.splits)

lemma history_settle_messages:
  "history_settle r w = Inr w' \<Longrightarrow> messages w' = messages w \<and> outbox w' = outbox w \<and> showHistory w' = showHistory w"
  by (auto simp: history_settle_def history_then_def history_catch_def split: sum.splits)

lemma step_messages:
  assumes "step e w = Done w'"
  shows "\<exists>ms. messages w' = messages w @ ms \<and> length ms \<le> 1 \<and>
           (\<forall>m \<in> set ms. sender m \<in> {js ''user'', js ''bot''} \<and> truthy (msg_text m)
                          \<and> clock_reading e = Some (timestamp m))"
proof (cases e)
  case (Change s)
  with assms show ?thesis by auto
next
  case (Submit now)
  with assms show ?thesis
    by (auto simp: sendMessage_def Let_def dest: trim_nonempty_input)
next
  case (ChatSettled r now)
  with assms have "sendMessage_resume r now (w\<lparr>chat_pending := chat_pending w - 1\<rparr>) = Inr w'"
    by (cases "sendMessage_resume r now (w\<lparr>chat_pending := chat_pending w - 1\<rparr>)")
       (auto split: if_splits)
  from chat_settle_cases [OF this] ChatSettled show ?thesis by auto
next
  case OpenHistory
  with assms show ?thesis by (auto simp: setShowHistory_def history_effect_def)
next
  case CloseHistory
  with assms show ?thesis by (auto simp: setShowHistory_def history_effect_def)
next
  case (HistorySettled r)
  with assms have "history_settle r (w\<lparr>history_pending := history_pending w - 1\<rparr>) = Inr w'"
    by (cases "history_settle r (w\<lparr>history_pending := history_pending w - 1\<rparr>)")
       (auto split: if_splits)
  from history_settle_messages [OF this] show ?thesis by auto
qed

lemma run_messages:
  "run evs w = Done w' \<Longrightarrow>
     \<exists>ms. messages w' = messages w @ ms \<and>
       (\<forall>m \<in> set ms. sender m \<in> {js ''user'', js ''bot''} \<and> truthy (msg_text m)
                      \<and> timestamp m \<in> clock_readings evs)"
proof (induction evs arbitrary: w)
  case Nil
  then show ?case by simp
next
  case (Cons e es)
  from Cons.prems obtain w1 where s: "step e w = Done w1" and r: "run es w1 = Done w'"
    by (auto split: outcome.splits)
  from step_messages [OF s] obtain ms1 where
    m1: "messages w1 = messages w @ ms1"
    and p1: "\<forall>m \<in> set ms1. sender m \<in> {js ''user'', js ''bot''} \<and> truthy (msg_text m)
                \<and> clock_reading e = Some (timestamp m)"
    by blast
  from Cons.IH [OF r] obtain ms2 where
    m2: "messages w' = messages w1 @ ms2"
    and p2: "\<forall>m \<in> set ms2. sender m \<in> {js ''user'', js ''bot''} \<and> truthy (msg_text m)
                \<and> timestamp m \<in> clock_readings es"
    by blast
  have "messages w' = messages w @ (ms1 @ ms2)" using m1 m2 by simp
  moreover have "\<forall>m \<in> set (ms1 @ ms2). sender m \<in> {js ''user'', js ''bot''} \<and> truthy (msg_text m)
                      \<and> timestamp m \<in> clock_readings (e # es)"
    using p1 p2 by auto
  ultimately show ?case by blast
qed

lemma step_history_gets:
  assumes "step e w = Done w'"
  shows "length (filter (\<lambda>q. req_method q = js ''GET'' \<and>
                              req_url q = js ''http://localhost:5000/history'') (outbox w')) =
           length (filter (\<lambda>q. req_method q = js ''GET'' \<and>
                              req_url q = js ''http://localhost:5000/history'') (outbox w))
             + open_transitions [e] (showHistory w)
         \<and> open_transitions (e # es) (showHistory w) =
             open_transitions [e] (showHistory w) + open_transitions es (showHistory w')"
proof (cases e)
  case (Change s)
  with assms show ?thesis by auto
next
  case (Submit now)
  with assms show ?thesis
    by (auto simp: sendMessage_def Let_def chat_request_is_post)
next
  case (ChatSettled r now)
  with assms have "sendMessage_resume r now (w\<lparr>chat_pending := chat_pending w - 1\<rparr>) = Inr w'"
    by (cases "sendMessage_resume r now (w\<lparr>chat_pending := chat_pending w - 1\<rparr>)")
       (auto split: if_splits)
  from chat_settle_cases [OF this] ChatSettled show ?thesis by auto
next
  case OpenHistory
  with assms show ?thesis
    by (auto simp: setShowHistory_def history_effect_def history_request_is_get)
next
  case CloseHistory
  with assms show ?thesis
    by (auto simp: setShowHistory_def history_effect_def history_request_is_get)
next
  case (HistorySettled r)
  with assms have "history_settle r (w\<lparr>history_pending := history_pending w - 1\<rparr>) = Inr w'"
    by (cases "history_settle r (w\<lparr>history_pending := history_pending w - 1\<rparr>)")
       (auto split: if_splits)
  from history_settle_messages [OF this] HistorySettled show ?thesis by auto
qed









section \<open>Submitting a message\<close>

text \<open>
  C1. A reply that is a non-empty string \<open>x\<close> is appended as a bot message at the end
  of the session list, and the user message of the submission that asked for it is
  somewhere before it. The list ends with that user message directly followed by the
  bot message when nothing happened between the submission and the reply (\<open>evs = []\<close>).
\<close>

theorem reply_appended_after_user_message:
  assumes nonblank: "trim (input w) \<noteq> []"
    and between: "run evs (sendMessage now w) = Done w1"
    and pending: "0 < chat_pending w1"
    and reply: "getProp data (js ''reply'') = Inr (Some (JStr x))"
    and nonempty: "x \<noteq> []"
  shows "step (ChatSettled (Resolved (Response b (Some data))) now') w1 =
           Done (w1\<lparr>messages := messages w1 @
                        [\<lparr>sender = js ''bot'', msg_text = JStr x, timestamp = now'\<rparr>],
                     chat_pending := chat_pending w1 - 1\<rparr>)
         \<and> (\<exists>mid. messages w1 =
                messages w @ [\<lparr>sender = js ''user'', msg_text = JStr (input w), timestamp = now\<rparr>] @ mid)
         \<and> (evs = [] \<longrightarrow>
              messages w1 @ [\<lparr>sender = js ''bot'', msg_text = JStr x, timestamp = now'\<rparr>] =
                messages w @ [\<lparr>sender = js ''user'', msg_text = JStr (input w), timestamp = now\<rparr>,
                              \<lparr>sender = js ''bot'', msg_text = JStr x, timestamp = now'\<rparr>])"
proof -
  have sent: "messages (sendMessage now w) =
      messages w @ [\<lparr>sender = js ''user'', msg_text = JStr (input w), timestamp = now\<rparr>]"
    using nonblank by (simp add: sendMessage_def Let_def)
  from run_messages [OF between] obtain mid where
    "messages w1 = messages (sendMessage now w) @ mid" by blast
  with sent have mid: "messages w1 =
      messages w @ [\<lparr>sender = js ''user'', msg_text = JStr (input w), timestamp = now\<rparr>] @ mid"
    by simp
  have settle: "step (ChatSettled (Resolved (Response b (Some data))) now') w1 =
           Done (w1\<lparr>messages := messages w1 @
                        [\<lparr>sender = js ''bot'', msg_text = JStr x, timestamp = now'\<rparr>],
                     chat_pending := chat_pending w1 - 1\<rparr>)"
    using pending reply nonempty
    by (simp add: sendMessage_resume_def bot_updater_def or_else_def)
  have last: "evs = [] \<longrightarrow>
              messages w1 @ [\<lparr>sender = js ''bot'', msg_text = JStr x, timestamp = now'\<rparr>] =
                messages w @ [\<lparr>sender = js ''user'', msg_text = JStr (input w), timestamp = now\<rparr>,
                              \<lparr>sender = js ''bot'', msg_text = JStr x, timestamp = now'\<rparr>]"
    using between sent by auto
  from settle mid last show ?thesis by blast
qed

text \<open>Typing \<^verbatim>\<open>hi\<close>, submitting, and a reply \<^verbatim>\<open>{"reply": "hello"}\<close>.\<close>

theorem reply_appended_after_user_message_witness:
  "trim (input (init\<lparr>input := js ''hi''\<rparr>)) \<noteq> []
   \<and> run [] (sendMessage (js ''10:00'') (init\<lparr>input := js ''hi''\<rparr>)) =
       Done (sendMessage (js ''10:00'') (init\<lparr>input := js ''hi''\<rparr>))
   \<and> 0 < chat_pending (sendMessage (js ''10:00'') (init\<lparr>input := js ''hi''\<rparr>))
   \<and> getProp (JObj [(js ''reply'', JStr (js ''hello''))]) (js ''reply'') =
       Inr (Some (JStr (js ''hello'')))
   \<and> js ''hello'' \<noteq> []
   \<and> step (ChatSettled (Resolved (Response True (Some (JObj [(js ''reply'', JStr (js ''hello''))]))))
             (js ''10:01''))
        (sendMessage (js ''10:00'') (init\<lparr>input := js ''hi''\<rparr>)) =
       Done (init\<lparr>messages :=
                    [\<lparr>sender = js ''user'', msg_text = JStr (js ''hi''), timestamp = js ''10:00''\<rparr>,
                     \<lparr>sender = js ''bot'', msg_text = JStr (js ''hello''), timestamp = js ''10:01''\<rparr>],
                  outbox := [chat_request (js ''hi'')]\<rparr>)"
proof -
  let ?w = "init\<lparr>input := js ''hi''\<rparr>"
  let ?data = "JObj [(js ''reply'', JStr (js ''hello''))]"
  have h1: "trim (input ?w) \<noteq> []" by (simp add: eval_defs)
  have h2: "run [] (sendMessage (js ''10:00'') ?w) = Done (sendMessage (js ''10:00'') ?w)" by simp
  have h3: "0 < chat_pending (sendMessage (js ''10:00'') ?w)" by (simp add: eval_defs)
  have h4: "getProp ?data (js ''reply'') = Inr (Some (JStr (js ''hello'')))" by (simp add: js_def)
  have h5: "js ''hello'' \<noteq> []" by (simp add: js_def)
  note c = reply_appended_after_user_message [OF h1 h2 h3 h4 h5, of True "js ''10:01''"]
  from c have "step (ChatSettled (Resolved (Response True (Some ?data))) (js ''10:01''))
        (sendMessage (js ''10:00'') ?w) =
       Done (init\<lparr>messages :=
                    [\<lparr>sender = js ''user'', msg_text = JStr (js ''hi''), timestamp = js ''10:00''\<rparr>,
                     \<lparr>sender = js ''bot'', msg_text = JStr (js ''hello''), timestamp = js ''10:01''\<rparr>],
                  outbox := [chat_request (js ''hi'')]\<rparr>)"
    by (simp add: eval_defs)
  with h1 h2 h3 h4 h5 show ?thesis by blast
qed

text \<open>
  Without the two restrictions the statement fails. A reply \<^verbatim>\<open>{"reply": ""}\<close> puts the
  placeholder into the list, not the empty string. And with two submissions before the
  first reply, the list ends with two bot messages.
\<close>

theorem empty_reply_and_overlap_counterexample:
  "run [Change (js ''hi''), Submit (js ''10:00''),
        ChatSettled (Resolved (Response True (Some (JObj [(js ''reply'', JStr [])])))) (js ''10:01'')]
       init =
     Done (init\<lparr>messages :=
                  [\<lparr>sender = js ''user'', msg_text = JStr (js ''hi''), timestamp = js ''10:00''\<rparr>,
                   \<lparr>sender = js ''bot'', msg_text = JStr (js ''(No reply)''), timestamp = js ''10:01''\<rparr>],
                outbox := [chat_request (js ''hi'')]\<rparr>)
   \<and> run [Change (js ''a''), Submit (js ''10:00''), Change (js ''b''), Submit (js ''10:00''),
          ChatSettled (Resolved (Response True (Some (JObj [(js ''reply'', JStr (js ''A''))])))) (js ''10:01''),
          ChatSettled (Resolved (Response True (Some (JObj [(js ''reply'', JStr (js ''B''))])))) (js ''10:01'')]
         init =
       Done (init\<lparr>messages :=
                  [\<lparr>sender = js ''user'', msg_text = JStr (js ''a''), timestamp = js ''10:00''\<rparr>,
                   \<lparr>sender = js ''user'', msg_text = JStr (js ''b''), timestamp = js ''10:00''\<rparr>,
                   \<lparr>sender = js ''bot'', msg_text = JStr (js ''A''), timestamp = js ''10:01''\<rparr>,
                   \<lparr>sender = js ''bot'', msg_text = JStr (js ''B''), timestamp = js ''10:01''\<rparr>],
                outbox := [chat_request (js ''a''), chat_request (js ''b'')]\<rparr>)"
  by (simp add: eval_defs)

text \<open>
  C2. Submitting a text that is not empty after trimming appends exactly one message,
  with sender \<^verbatim>\<open>user\<close> and the text as typed, clears the input, and issues exactly one
  POST to the chat endpoint carrying that text. All of it is done in the step of the
  submission, where the call is still pending.
\<close>

theorem submit_appends_user_message:
  assumes "trim (input w) \<noteq> []"
  shows "step (Submit now) w =
           Done (w\<lparr>messages := messages w @
                       [\<lparr>sender = js ''user'', msg_text = JStr (input w), timestamp = now\<rparr>],
                    input := [],
                    outbox := outbox w @
                       [\<lparr>req_url = js ''http://localhost:5000/chat'',
                         req_method = js ''POST'',
                         req_headers = [(js ''Content-Type'', js ''application/json'')],
                         req_body = Some (JObj [(js ''message'', JStr (input w))])\<rparr>],
                    chat_pending := Suc (chat_pending w)\<rparr>)"
  using assms by (simp add: sendMessage_def Let_def chat_request_explicit)

theorem submit_appends_user_message_witness:
  "trim (input (init\<lparr>input := js '' hi''\<rparr>)) \<noteq> []
   \<and> step (Submit (js ''10:00'')) (init\<lparr>input := js '' hi''\<rparr>) =
       Done (init\<lparr>messages :=
                    [\<lparr>sender = js ''user'', msg_text = JStr (js '' hi''), timestamp = js ''10:00''\<rparr>],
                  outbox :=
                    [\<lparr>req_url = js ''http://localhost:5000/chat'',
                      req_method = js ''POST'',
                      req_headers = [(js ''Content-Type'', js ''application/json'')],
                      req_body = Some (JObj [(js ''message'', JStr (js '' hi''))])\<rparr>],
                  chat_pending := 1\<rparr>)"
proof -
  have h: "trim (input (init\<lparr>input := js '' hi''\<rparr>)) \<noteq> []" by (simp add: eval_defs)
  from submit_appends_user_message [OF h, of "js ''10:00''"]
  have "step (Submit (js ''10:00'')) (init\<lparr>input := js '' hi''\<rparr>) =
       Done (init\<lparr>messages :=
                    [\<lparr>sender = js ''user'', msg_text = JStr (js '' hi''), timestamp = js ''10:00''\<rparr>],
                  outbox :=
                    [\<lparr>req_url = js ''http://localhost:5000/chat'',
                      req_method = js ''POST'',
                      req_headers = [(js ''Content-Type'', js ''application/json'')],
                      req_body = Some (JObj [(js ''message'', JStr (js '' hi''))])\<rparr>],
                  chat_pending := 1\<rparr>)"
    by (simp add: init_def)
  with h show ?thesis by blast
qed

text \<open>
  C3. Submitting an input that is empty or consists of white space only changes nothing:
  the session list, the requests issued and the input field are what they were.
\<close>

theorem blank_submit_is_noop:
  assumes "\<forall>c \<in> set (input w). isWhiteSpace c"
  shows "step (Submit now) w = Done w"
  using assms by (simp add: sendMessage_def trim_empty_iff)

text \<open>An input of a space, a tab and a no-break space.\<close>

theorem blank_submit_is_noop_witness:
  "isWhiteSpace 0x20 \<and> isWhiteSpace 0x09 \<and> isWhiteSpace 0xA0
   \<and> input (init\<lparr>input := [0x20, 0x09, 0xA0]\<rparr>) = [0x20, 0x09, 0xA0]
   \<and> step (Submit (js ''10:00'')) (init\<lparr>input := [0x20, 0x09, 0xA0]\<rparr>) =
       Done (init\<lparr>input := [0x20, 0x09, 0xA0]\<rparr>)"
proof -
  have ws: "isWhiteSpace 0x20 \<and> isWhiteSpace 0x09 \<and> isWhiteSpace 0xA0"
    by (simp add: isWhiteSpace_def)
  have i: "input (init\<lparr>input := [0x20, 0x09, 0xA0]\<rparr>) = [0x20, 0x09, 0xA0]" by simp
  from ws i have h: "\<forall>c \<in> set (input (init\<lparr>input := [0x20, 0x09, 0xA0]\<rparr>)). isWhiteSpace c"
    by simp
  from ws i blank_submit_is_noop [OF h, of "js ''10:00''"] show ?thesis by blast
qed

section \<open>Replies and failures of the chat call\<close>

text \<open>
  C4. When the chat call is rejected (a network error), or its response has a body that
  is not JSON, whatever the status, a bot message with the text
  \<^verbatim>\<open>Error: Could not reach backend.\<close> is appended and no exception leaves the handler.
\<close>

theorem chat_failure_appends_error_message:
  assumes "0 < chat_pending w"
    and "r = Rejected \<or> r = Resolved (Response b None)"
  shows "step (ChatSettled r now) w =
           Done (w\<lparr>messages := messages w @
                       [\<lparr>sender = js ''bot'',
                         msg_text = JStr (js ''Error: Could not reach backend.''),
                         timestamp = now\<rparr>],
                    chat_pending := chat_pending w - 1\<rparr>)"
  using assms by (auto simp: sendMessage_resume_def error_updater_def)

theorem chat_failure_appends_error_message_witness:
  "0 < chat_pending (sendMessage (js ''10:00'') (init\<lparr>input := js ''hi''\<rparr>))
   \<and> (Resolved (Response False None) = Rejected
        \<or> Resolved (Response False None) = Resolved (Response False None))
   \<and> step (ChatSettled (Resolved (Response False None)) (js ''10:01''))
        (sendMessage (js ''10:00'') (init\<lparr>input := js ''hi''\<rparr>)) =
       Done (init\<lparr>messages :=
                    [\<lparr>sender = js ''user'', msg_text = JStr (js ''hi''), timestamp = js ''10:00''\<rparr>,
                     \<lparr>sender = js ''bot'',
                      msg_text = JStr (js ''Error: Could not reach backend.''),
                      timestamp = js ''10:01''\<rparr>],
                  outbox := [chat_request (js ''hi'')]\<rparr>)"
proof -
  let ?w = "sendMessage (js ''10:00'') (init\<lparr>input := js ''hi''\<rparr>)"
  have h1: "0 < chat_pending ?w" by (simp add: eval_defs)
  have h2: "Resolved (Response False None) = Rejected
        \<or> Resolved (Response False None) = Resolved (Response False None)" by simp
  from chat_failure_appends_error_message [OF h1 h2, of "js ''10:01''"]
  have "step (ChatSettled (Resolved (Response False None)) (js ''10:01'')) ?w =
       Done (init\<lparr>messages :=
                    [\<lparr>sender = js ''user'', msg_text = JStr (js ''hi''), timestamp = js ''10:00''\<rparr>,
                     \<lparr>sender = js ''bot'',
                      msg_text = JStr (js ''Error: Could not reach backend.''),
                      timestamp = js ''10:01''\<rparr>],
                  outbox := [chat_request (js ''hi'')]\<rparr>)"
    by (simp add: eval_defs)
  with h1 h2 show ?thesis by blast
qed

text \<open>
  \<^verbatim>\<open>res.ok\<close> is never read. A response with a failure status and the body
  \<^verbatim>\<open>{"reply": "down"}\<close> is shown as the reply \<^verbatim>\<open>down\<close>, not as the error text.
\<close>

theorem non_ok_response_counterexample:
  "run [Change (js ''hi''), Submit (js ''10:00''),
        ChatSettled (Resolved (Response False (Some (JObj [(js ''reply'', JStr (js ''down''))]))))
          (js ''10:01'')]
       init =
     Done (init\<lparr>messages :=
                  [\<lparr>sender = js ''user'', msg_text = JStr (js ''hi''), timestamp = js ''10:00''\<rparr>,
                   \<lparr>sender = js ''bot'', msg_text = JStr (js ''down''), timestamp = js ''10:01''\<rparr>],
                outbox := [chat_request (js ''hi'')]\<rparr>)"
  by (simp add: eval_defs)

text \<open>
  When the body of the response is a JSON value from which \<^verbatim>\<open>reply\<close> reads as
  \<^verbatim>\<open>undefined\<close> (an object without that member, or any value other than \<^verbatim>\<open>null\<close>
  that is not an object), a bot message with the text \<^verbatim>\<open>(No reply)\<close> is appended.
\<close>

lemma missing_reply_gets_placeholder:
  assumes "0 < chat_pending w"
    and "getProp data (js ''reply'') = Inr None"
  shows "step (ChatSettled (Resolved (Response b (Some data))) now) w =
           Done (w\<lparr>messages := messages w @
                       [\<lparr>sender = js ''bot'', msg_text = JStr (js ''(No reply)''),
                         timestamp = now\<rparr>],
                    chat_pending := chat_pending w - 1\<rparr>)"
  using assms by (simp add: sendMessage_resume_def bot_updater_def or_else_def)

lemma missing_reply_gets_placeholder_example:
  "0 < chat_pending (sendMessage (js ''10:00'') (init\<lparr>input := js ''hi''\<rparr>))
   \<and> getProp (JObj [(js ''answer'', JStr (js ''hello''))]) (js ''reply'') = Inr None
   \<and> step (ChatSettled (Resolved (Response True (Some (JObj [(js ''answer'', JStr (js ''hello''))]))))
             (js ''10:01''))
        (sendMessage (js ''10:00'') (init\<lparr>input := js ''hi''\<rparr>)) =
       Done (init\<lparr>messages :=
                    [\<lparr>sender = js ''user'', msg_text = JStr (js ''hi''), timestamp = js ''10:00''\<rparr>,
                     \<lparr>sender = js ''bot'', msg_text = JStr (js ''(No reply)''),
                      timestamp = js ''10:01''\<rparr>],
                  outbox := [chat_request (js ''hi'')]\<rparr>)"
proof -
  let ?w = "sendMessage (js ''10:00'') (init\<lparr>input := js ''hi''\<rparr>)"
  have h1: "0 < chat_pending ?w" by (simp add: eval_defs)
  have h2: "getProp (JObj [(js ''answer'', JStr (js ''hello''))]) (js ''reply'') = Inr None"
    by (simp add: js_def)
  from missing_reply_gets_placeholder [OF h1 h2, of True "js ''10:01''"]
  have "step (ChatSettled (Resolved (Response True (Some (JObj [(js ''answer'', JStr (js ''hello''))]))))
             (js ''10:01'')) ?w =
       Done (init\<lparr>messages :=
                    [\<lparr>sender = js ''user'', msg_text = JStr (js ''hi''), timestamp = js ''10:00''\<rparr>,
                     \<lparr>sender = js ''bot'', msg_text = JStr (js ''(No reply)''),
                      timestamp = js ''10:01''\<rparr>],
                  outbox := [chat_request (js ''hi'')]\<rparr>)"
    by (simp add: eval_defs)
  with h1 h2 show ?thesis by blast
qed

text \<open>
  C5. A response whose JSON body has no \<^verbatim>\<open>reply\<close> member should give a bot message
  with the text \<^verbatim>\<open>(No reply)\<close>. For the body \<^verbatim>\<open>null\<close> it does not: reading
  \<^verbatim>\<open>reply\<close> from \<^verbatim>\<open>null\<close> throws, and since the read stands inside the updater
  the \<^verbatim>\<open>catch\<close> block written around it never sees the exception, so the page goes
  down. The promise chain of the history panel meets the same exception on the same
  body and does catch it.
\<close>

theorem null_body_reply_uncaught:
  "run [Change (js ''hi''), Submit (js ''10:00''),
        ChatSettled (Resolved (Response True (Some JNull))) (js ''10:01'')]
       init = Uncaught TypeError
   \<and> app_run [Change (js ''hi''), Submit (js ''10:00''),
        ChatSettled (Resolved (Response True (Some JNull))) (js ''10:01'')]
       init = Uncaught TypeError
   \<and> run [OpenHistory, HistorySettled (Resolved (Response True (Some JNull)))] init =
       Done (init\<lparr>showHistory := True, outbox := [history_request]\<rparr>)"
  by (simp add: eval_defs)

text \<open>
  C10. A reply member that is present but falsy (the empty string, zero, \<^verbatim>\<open>false\<close>,
  \<^verbatim>\<open>null\<close>) gives the same bot message as a body without the member: its text is
  \<^verbatim>\<open>(No reply)\<close>.
\<close>

theorem falsy_reply_gets_placeholder:
  assumes "0 < chat_pending w"
    and "getProp data (js ''reply'') = Inr (Some v)"
    and "\<not> truthy v"
  shows "step (ChatSettled (Resolved (Response b (Some data))) now) w =
           Done (w\<lparr>messages := messages w @
                       [\<lparr>sender = js ''bot'', msg_text = JStr (js ''(No reply)''),
                         timestamp = now\<rparr>],
                    chat_pending := chat_pending w - 1\<rparr>)
         \<and> step (ChatSettled (Resolved (Response b (Some data))) now) w =
             step (ChatSettled (Resolved (Response b (Some (JObj [])))) now) w"
  using assms by (simp add: sendMessage_resume_def bot_updater_def or_else_def)

theorem falsy_reply_gets_placeholder_witness:
  "0 < chat_pending (sendMessage (js ''10:00'') (init\<lparr>input := js ''hi''\<rparr>))
   \<and> getProp (JObj [(js ''reply'', JStr [])]) (js ''reply'') = Inr (Some (JStr []))
   \<and> \<not> truthy (JStr [])
   \<and> step (ChatSettled (Resolved (Response True (Some (JObj [(js ''reply'', JStr [])]))))
             (js ''10:01''))
        (sendMessage (js ''10:00'') (init\<lparr>input := js ''hi''\<rparr>)) =
       Done (init\<lparr>messages :=
                    [\<lparr>sender = js ''user'', msg_text = JStr (js ''hi''), timestamp = js ''10:00''\<rparr>,
                     \<lparr>sender = js ''bot'', msg_text = JStr (js ''(No reply)''),
                      timestamp = js ''10:01''\<rparr>],
                  outbox := [chat_request (js ''hi'')]\<rparr>)"
proof -
  let ?w = "sendMessage (js ''10:00'') (init\<lparr>input := js ''hi''\<rparr>)"
  have h1: "0 < chat_pending ?w" by (simp add: eval_defs)
  have h2: "getProp (JObj [(js ''reply'', JStr [])]) (js ''reply'') = Inr (Some (JStr []))"
    by simp
  have h3: "\<not> truthy (JStr [])" by simp
  from falsy_reply_gets_placeholder [OF h1 h2 h3, of True "js ''10:01''"]
  have "step (ChatSettled (Resolved (Response True (Some (JObj [(js ''reply'', JStr [])]))))
             (js ''10:01'')) ?w =
       Done (init\<lparr>messages :=
                    [\<lparr>sender = js ''user'', msg_text = JStr (js ''hi''), timestamp = js ''10:00''\<rparr>,
                     \<lparr>sender = js ''bot'', msg_text = JStr (js ''(No reply)''),
                      timestamp = js ''10:01''\<rparr>],
                  outbox := [chat_request (js ''hi'')]\<rparr>)"
    by (simp add: eval_defs)
  with h1 h2 h3 show ?thesis by blast
qed

section \<open>The session list as a whole\<close>

text \<open>
  C9. Along every run the session list only grows at its end: what it held stays, in
  place and unchanged. Every message added has sender \<^verbatim>\<open>user\<close> or \<^verbatim>\<open>bot\<close>, a text
  that is truthy, hence neither \<^verbatim>\<open>null\<close> nor \<^verbatim>\<open>undefined\<close>, and as timestamp the
  clock string of the event that added it.
\<close>

theorem session_list_append_only:
  assumes "run evs w = Done w'"
  shows "\<exists>ms. messages w' = messages w @ ms \<and>
           (\<forall>m \<in> set ms. sender m \<in> {js ''user'', js ''bot''} \<and> truthy (msg_text m)
                          \<and> msg_text m \<noteq> JNull \<and> timestamp m \<in> clock_readings evs)"
proof -
  from run_messages [OF assms] obtain ms where
    a: "messages w' = messages w @ ms"
    and b: "\<forall>m \<in> set ms. sender m \<in> {js ''user'', js ''bot''} \<and> truthy (msg_text m)
                \<and> timestamp m \<in> clock_readings evs"
    by blast
  have "\<forall>m \<in> set ms. msg_text m \<noteq> JNull"
  proof
    fix m assume "m \<in> set ms"
    with b have "truthy (msg_text m)" by blast
    then show "msg_text m \<noteq> JNull" by auto
  qed
  with a b show ?thesis by blast
qed

theorem session_list_append_only_witness:
  "run [Change (js ''hi''), Submit (js ''10:00''), ChatSettled Rejected (js ''10:01'')] init =
     Done (init\<lparr>messages :=
                  [\<lparr>sender = js ''user'', msg_text = JStr (js ''hi''), timestamp = js ''10:00''\<rparr>,
                   \<lparr>sender = js ''bot'', msg_text = JStr (js ''Error: Could not reach backend.''),
                     timestamp = js ''10:01''\<rparr>],
                outbox := [chat_request (js ''hi'')]\<rparr>)
   \<and> (\<exists>ms. messages (init\<lparr>messages :=
                  [\<lparr>sender = js ''user'', msg_text = JStr (js ''hi''), timestamp = js ''10:00''\<rparr>,
                   \<lparr>sender = js ''bot'', msg_text = JStr (js ''Error: Could not reach backend.''),
                     timestamp = js ''10:01''\<rparr>],
                outbox := [chat_request (js ''hi'')]\<rparr>) = messages init @ ms
          \<and> (\<forall>m \<in> set ms. sender m \<in> {js ''user'', js ''bot''} \<and> truthy (msg_text m)
                \<and> msg_text m \<noteq> JNull
                \<and> timestamp m \<in> clock_readings
                     [Change (js ''hi''), Submit (js ''10:00''), ChatSettled Rejected (js ''10:01'')]))"
proof -
  have h: "run [Change (js ''hi''), Submit (js ''10:00''), ChatSettled Rejected (js ''10:01'')] init =
     Done (init\<lparr>messages :=
                  [\<lparr>sender = js ''user'', msg_text = JStr (js ''hi''), timestamp = js ''10:00''\<rparr>,
                   \<lparr>sender = js ''bot'', msg_text = JStr (js ''Error: Could not reach backend.''),
                     timestamp = js ''10:01''\<rparr>],
                outbox := [chat_request (js ''hi'')]\<rparr>)"
    by (simp add: eval_defs)
  from h session_list_append_only [OF h] show ?thesis by blast
qed

section \<open>The history panel\<close>




text \<open>
  C7. When a history call fails (it is rejected, or its body is not JSON, or its body is
  \<^verbatim>\<open>null\<close>), the loading indicator goes off and nothing else changes: the history
  cell keeps what it held, no message is added to the session list, and no exception
  leaves the promise chain. A cell that held the empty list is shown as the empty panel.
\<close>

theorem history_failure_keeps_list:
  assumes "0 < history_pending w"
    and "r = Rejected \<or> r = Resolved (Response b None) \<or> r = Resolved (Response b (Some JNull))"
  shows "step (HistorySettled r) w =
           Done (w\<lparr>loadingHistory := False, history_pending := history_pending w - 1\<rparr>)
         \<and> (history w = JArr [] \<longrightarrow>
              history_panel (w\<lparr>loadingHistory := False, history_pending := history_pending w - 1\<rparr>)
                = Inr ShowNoHistory)"
  using assms
  by (auto simp: history_settle_def history_then_def history_catch_def history_panel_def)

theorem history_failure_keeps_list_witness:
  "0 < history_pending (setShowHistory True init)
   \<and> (Rejected = Rejected \<or> Rejected = Resolved (Response False None)
        \<or> Rejected = Resolved (Response False (Some JNull)))
   \<and> history (setShowHistory True init) = JArr []
   \<and> step (HistorySettled Rejected) (setShowHistory True init) =
       Done (init\<lparr>showHistory := True, outbox := [history_request]\<rparr>)
   \<and> history_panel (init\<lparr>showHistory := True, outbox := [history_request]\<rparr>) = Inr ShowNoHistory"
proof -
  let ?w = "setShowHistory True init"
  have h1: "0 < history_pending ?w" by (simp add: eval_defs)
  have h2: "Rejected = Rejected \<or> Rejected = Resolved (Response False None)
        \<or> Rejected = Resolved (Response False (Some JNull))" by simp
  have h3: "history ?w = JArr []" by (simp add: eval_defs)
  note c = history_failure_keeps_list [OF h1 h2]
  from c have c1: "step (HistorySettled Rejected) ?w =
      Done (init\<lparr>showHistory := True, outbox := [history_request]\<rparr>)"
    by (simp add: setShowHistory_def history_effect_def init_def)
  from c h3 have c2: "history_panel (init\<lparr>showHistory := True, outbox := [history_request]\<rparr>)
      = Inr ShowNoHistory"
    by (simp add: setShowHistory_def history_effect_def init_def)
  from h1 h2 h3 c1 c2 show ?thesis by blast
qed

text \<open>
  The list is not left empty when an earlier call had filled it: after a first opening
  that fetched one entry, a second opening whose call is rejected still shows that entry.
\<close>

theorem stale_history_counterexample:
  "run [OpenHistory,
        HistorySettled (Resolved (Response True (Some (JObj [(js ''history'',
          JArr [JObj [(js ''sender'', JStr (js ''user'')), (js ''text'', JStr (js ''hi'')),
                      (js ''timestamp'', JStr (js ''10:00''))]])])))),
        CloseHistory, OpenHistory, HistorySettled Rejected]
       init =
     Done (init\<lparr>showHistory := True,
                history := JArr [JObj [(js ''sender'', JStr (js ''user'')), (js ''text'', JStr (js ''hi'')),
                                       (js ''timestamp'', JStr (js ''10:00''))]],
                outbox := [history_request, history_request]\<rparr>)
   \<and> history_panel
        (init\<lparr>showHistory := True,
              history := JArr [JObj [(js ''sender'', JStr (js ''user'')), (js ''text'', JStr (js ''hi'')),
                                     (js ''timestamp'', JStr (js ''10:00''))]],
              outbox := [history_request, history_request]\<rparr>) =
       Inr (ShowEntries [\<lparr>shown_as_user = True, shown_text = Text (js ''hi''),
                          shown_time = Text (js ''10:00'')\<rparr>])"
  by (simp add: eval_defs)

text \<open>
  C8. Along every run, the number of GET requests to the history endpoint grows by the
  number of times the panel goes from closed to open: every reopening fetches again,
  whatever an earlier fetch has left in the history cell.
\<close>

theorem reopen_fetches_again:
  "run evs w = Done w' \<Longrightarrow>
     length (filter (\<lambda>q. req_method q = js ''GET'' \<and>
                          req_url q = js ''http://localhost:5000/history'') (outbox w')) =
       length (filter (\<lambda>q. req_method q = js ''GET'' \<and>
                            req_url q = js ''http://localhost:5000/history'') (outbox w))
         + open_transitions evs (showHistory w)"
proof (induction evs arbitrary: w)
  case Nil
  then show ?case by simp
next
  case (Cons e es)
  from Cons.prems obtain w1 where s: "step e w = Done w1" and r: "run es w1 = Done w'"
    by (auto split: outcome.splits)
  from step_history_gets [OF s, of es] Cons.IH [OF r] show ?case by simp
qed

theorem reopen_fetches_again_witness:
  "run [OpenHistory, OpenHistory, CloseHistory, OpenHistory] init =
     Done (init\<lparr>showHistory := True, loadingHistory := True,
                outbox := [\<lparr>req_url = js ''http://localhost:5000/history'', req_method = js ''GET'',
                            req_headers = [], req_body = None\<rparr>,
                           \<lparr>req_url = js ''http://localhost:5000/history'', req_method = js ''GET'',
                            req_headers = [], req_body = None\<rparr>],
                history_pending := 2\<rparr>)
   \<and> length (filter (\<lambda>q. req_method q = js ''GET'' \<and>
                          req_url q = js ''http://localhost:5000/history'')
         (outbox (init\<lparr>showHistory := True, loadingHistory := True,
                outbox := [\<lparr>req_url = js ''http://localhost:5000/history'', req_method = js ''GET'',
                            req_headers = [], req_body = None\<rparr>,
                           \<lparr>req_url = js ''http://localhost:5000/history'', req_method = js ''GET'',
                            req_headers = [], req_body = None\<rparr>],
                history_pending := 2\<rparr>))) = 2
   \<and> open_transitions [OpenHistory, OpenHistory, CloseHistory, OpenHistory] (showHistory init) = 2"
proof -
  have h: "run [OpenHistory, OpenHistory, CloseHistory, OpenHistory] init =
     Done (init\<lparr>showHistory := True, loadingHistory := True,
                outbox := [\<lparr>req_url = js ''http://localhost:5000/history'', req_method = js ''GET'',
                            req_headers = [], req_body = None\<rparr>,
                           \<lparr>req_url = js ''http://localhost:5000/history'', req_method = js ''GET'',
                            req_headers = [], req_body = None\<rparr>],
                history_pending := 2\<rparr>)"
    by (simp add: setShowHistory_def history_effect_def init_def history_request_explicit)
  have o: "open_transitions [OpenHistory, OpenHistory, CloseHistory, OpenHistory] (showHistory init) = 2"
    by (simp add: init_def)
  from reopen_fetches_again [OF h] o
  have "length (filter (\<lambda>q. req_method q = js ''GET'' \<and>
                          req_url q = js ''http://localhost:5000/history'')
         (outbox (init\<lparr>showHistory := True, loadingHistory := True,
                outbox := [\<lparr>req_url = js ''http://localhost:5000/history'', req_method = js ''GET'',
                            req_headers = [], req_body = None\<rparr>,
                           \<lparr>req_url = js ''http://localhost:5000/history'', req_method = js ''GET'',
                            req_headers = [], req_body = None\<rparr>],
                history_pending := 2\<rparr>))) = 2"
    by (simp add: init_def)
  with h o show ?thesis by blast
qed

end
